theory Spec2Isabelle
  imports Main
begin

section \<open>Values, classes and the object store\<close>

text \<open>
  The module \<open>ledfxcontroller/utils.py\<close> works on Python class objects: it reads class
  attributes through the method resolution order, binds the attribute \<open>_registry\<close> on a
  class and mutates the dictionary that attribute refers to. Classes and dictionaries are
  therefore objects of a store, addressed by references, so that two classes can share one
  dictionary.
\<close>

type_synonym cref = nat
type_synonym dref = nat

datatype cfgval = VInt int | VStr string | VBool bool

datatype ftype = TInt | TStr | TBool

record field =
  f_type :: ftype
  f_required :: bool
  f_default :: "cfgval option"

type_synonym config = "string \<rightharpoonup> cfgval"

datatype extra_policy = PREVENT_EXTRA | ALLOW_EXTRA | REMOVE_EXTRA

text \<open>
  A \<open>voluptuous.Schema\<close> object: its attribute \<open>schema\<close> (the dictionary of field
  declarations, keyed by field name) and the constructor's keyword arguments \<open>required\<close>
  and \<open>extra\<close>. An entry of the dictionary is written
  \<open>vol.Optional('a', default=1): int\<close>: its key is a marker that carries the field
  name, whether the field is required and its default (\<open>f_required\<close>,
  \<open>f_default\<close>), and its value is the validator of the field (\<open>f_type\<close>).
\<close>

record vol_schema =
  s_schema :: "string \<rightharpoonup> field"
  s_required :: bool
  s_extra :: extra_policy

definition field_types :: "vol_schema \<Rightarrow> (string \<rightharpoonup> ftype)" where
  \<comment> \<open>What a comparison of two \<open>schema\<close> dictionaries sees: the names of the keys and
      the validators. A marker hashes and compares by its name alone, so neither the
      default nor the kind of the marker takes part.\<close>
  "field_types s = (\<lambda>k. map_option f_type (s_schema s k))"

definition Schema :: "(string \<rightharpoonup> field) \<Rightarrow> extra_policy \<Rightarrow> vol_schema" where
  \<comment> \<open>\<open>vol.Schema(d, extra=e)\<close>; \<open>required\<close> keeps its default \<open>False\<close>.\<close>
  "Schema d e = \<lparr>s_schema = d, s_required = False, s_extra = e\<rparr>"

datatype pyval =
    PNone
  | PStr string
  | PSchema vol_schema
  | PDict dref
  | PTuple "pyval list"

record pyclass =
  c_name :: string
  c_module :: string
  c_type :: cref
  c_mro_tail :: "cref list"
  c_dict :: "string \<rightharpoonup> pyval"

text \<open>
  \<open>c_type\<close> is the metaclass (\<open>type(cls)\<close>), \<open>c_mro_tail\<close> is \<open>cls.__mro__[1:]\<close>, the
  linearised ancestors as the interpreter stores them on the class, and \<open>c_dict\<close> is
  the class's own namespace. Only dictionaries from names to classes are mutated by this
  module, so the store's dictionaries hold class references.
\<close>

record heap =
  classes :: "cref \<rightharpoonup> pyclass"
  dicts :: "dref \<Rightarrow> (string \<rightharpoonup> cref)"
  next_cref :: cref
  next_dref :: dref

datatype attr_msg =
    NoAttribute string
  | NotInRegistry string
  | AlreadyCreated int
  | DoesNotExist int

datatype error =
    TypeError
  | AttributeError attr_msg
  | KeyError string
  | Invalid "string set"
  | OtherError string

section \<open>Attribute lookup\<close>

fun mro_lookup :: "heap \<Rightarrow> cref list \<Rightarrow> string \<Rightarrow> pyval option" where
  "mro_lookup h [] a = None"
| "mro_lookup h (c # cs) a =
     (case classes h c of
        None \<Rightarrow> mro_lookup h cs a
      | Some k \<Rightarrow> (case c_dict k a of Some v \<Rightarrow> Some v | None \<Rightarrow> mro_lookup h cs a))"

definition getmro :: "heap \<Rightarrow> cref \<Rightarrow> cref list" where
  \<comment> \<open>\<open>inspect.getmro(cls)\<close>, that is \<open>cls.__mro__\<close>.\<close>
  "getmro h c = (case classes h c of None \<Rightarrow> [] | Some k \<Rightarrow> c # c_mro_tail k)"

definition getattr :: "heap \<Rightarrow> cref \<Rightarrow> string \<Rightarrow> pyval option" where
  \<comment> \<open>\<open>getattr(cls, attr)\<close> on a class: the namespaces along the class's own MRO, then
      those along the metaclass's MRO. \<open>None\<close> stands for the AttributeError.\<close>
  "getattr h c a =
     (case classes h c of
        None \<Rightarrow> None
      | Some k \<Rightarrow>
          (case mro_lookup h (c # c_mro_tail k) a of
             Some v \<Rightarrow> Some v
           | None \<Rightarrow> mro_lookup h (getmro h (c_type k)) a))"

definition super_getattr :: "heap \<Rightarrow> cref \<Rightarrow> string \<Rightarrow> pyval option" where
  \<comment> \<open>\<open>getattr(super(cls, cls), attr)\<close>: the namespaces after \<open>cls\<close> in \<open>cls.__mro__\<close>.\<close>
  "super_getattr h c a =
     (case classes h c of None \<Rightarrow> None | Some k \<Rightarrow> mro_lookup h (c_mro_tail k) a)"

definition hasattr :: "heap \<Rightarrow> cref \<Rightarrow> string \<Rightarrow> bool" where
  "hasattr h c a = (getattr h c a \<noteq> None)"

fun py_eq :: "heap \<Rightarrow> pyval \<Rightarrow> pyval \<Rightarrow> bool" where
  "py_eq h (PSchema s) (PSchema t) = (field_types s = field_types t)"
| "py_eq h (PDict d) (PDict e) = (dicts h d = dicts h e)"
| "py_eq h (PTuple xs) (PTuple ys) = list_all2 (py_eq h) xs ys"
| "py_eq h v w = (v = w)"

text \<open>
  Python's \<open>==\<close> on the values above. Two \<open>Schema\<close> objects are equal when their
  \<open>schema\<close> dictionaries are (the library's \<open>Schema.__eq__\<close>), and two such
  dictionaries are equal when they have the same field names with the same validators:
  their keys are markers, which compare by name, so two schemas that differ only in a
  default or in a field being required or optional are equal. Two registry
  dictionaries are equal when their contents are, tuples elementwise; values of
  different kinds are unequal.
\<close>

definition py_ne :: "heap \<Rightarrow> pyval \<Rightarrow> pyval \<Rightarrow> bool" where
  "py_ne h v w = (\<not> py_eq h v w)"

definition hasattr_explicit :: "heap \<Rightarrow> cref \<Rightarrow> string \<Rightarrow> bool" where
  "hasattr_explicit h cls attr =
     (case getattr h cls attr of
        None \<Rightarrow> False
      | Some v \<Rightarrow>
          py_ne h v (case super_getattr h cls attr of None \<Rightarrow> PNone | Some w \<Rightarrow> w))"

definition getattr_explicit :: "heap \<Rightarrow> cref \<Rightarrow> string \<Rightarrow> pyval list \<Rightarrow> error + pyval" where
  \<comment> \<open>The last argument is the tuple \<open>*default\<close>.\<close>
  "getattr_explicit h cls attr dflt =
     (if length dflt > 1 then Inl TypeError
      else if hasattr_explicit h cls attr then
        Inr (case getattr h cls attr of Some v \<Rightarrow> v | None \<Rightarrow> PTuple dflt)
      else
        (case dflt of
           d # _ \<Rightarrow> Inr d
         | [] \<Rightarrow> Inl (AttributeError (NoAttribute attr))))"

section \<open>Schema composition\<close>

definition extend_schema :: "vol_schema \<Rightarrow> (string \<rightharpoonup> field) \<Rightarrow> vol_schema" where
  \<comment> \<open>Modelled from the spec: \<open>Schema.extend\<close> belongs to the voluptuous library, which
      is not part of the source tree. It merges the given field set into the schema: a
      field named in the argument replaces the same-named field, every other field
      persists, and \<open>required\<close> and \<open>extra\<close> are inherited from the receiver.\<close>
  "extend_schema s d = s\<lparr>s_schema := s_schema s ++ d\<rparr>"

fun schema_loop :: "heap \<Rightarrow> string \<Rightarrow> vol_schema \<Rightarrow> cref list \<Rightarrow> error + vol_schema" where
  "schema_loop h attr s [] = Inr s"
| "schema_loop h attr s (c # cs) =
     (case getattr_explicit h c attr [PNone] of
        Inl e \<Rightarrow> Inl e
      | Inr PNone \<Rightarrow> schema_loop h attr s cs
      | Inr (PSchema c_schema) \<Rightarrow> schema_loop h attr (extend_schema s (s_schema c_schema)) cs
      | Inr _ \<Rightarrow> Inl (AttributeError (NoAttribute ''schema'')))"

definition schema :: "heap \<Rightarrow> cref \<Rightarrow> bool \<Rightarrow> extra_policy \<Rightarrow> error + pyval" where
  \<comment> \<open>\<open>BaseRegistry.schema\<close>, a classmethod: its first parameter is the class it is
      called on, so \<open>type(self)\<close> is that class's metaclass.\<close>
  "schema h self extended extra =
     (case classes h self of
        None \<Rightarrow> Inl (AttributeError (NoAttribute ''_schema_attr''))
      | Some k \<Rightarrow>
          (case getattr h self ''_schema_attr'' of
             None \<Rightarrow> Inl (AttributeError (NoAttribute ''_schema_attr''))
           | Some (PStr attr) \<Rightarrow>
               if \<not> extended then
                 getattr_explicit h (c_type k) attr [PSchema (Schema Map.empty PREVENT_EXTRA)]
               else
                 (case schema_loop h attr (Schema Map.empty extra) (rev (getmro h self)) of
                    Inl e \<Rightarrow> Inl e
                  | Inr s \<Rightarrow> Inr (PSchema s))
           | Some _ \<Rightarrow> Inl TypeError))"

section \<open>The registry\<close>

fun split_sep :: "char \<Rightarrow> string \<Rightarrow> string list" where
  "split_sep sep [] = [[]]"
| "split_sep sep (x # xs) =
     (if x = sep then [] # split_sep sep xs
      else (case split_sep sep xs of
              [] \<Rightarrow> [[x]]
            | w # ws \<Rightarrow> (x # w) # ws))"

definition registration_name :: "string \<Rightarrow> string" where
  \<comment> \<open>\<open>cls.__module__.split('.')[-1]\<close>; \<open>str.split\<close> never returns an empty list.\<close>
  "registration_name m = last (split_sep CHR ''.'' m)"

definition setattr :: "heap \<Rightarrow> cref \<Rightarrow> string \<Rightarrow> pyval \<Rightarrow> heap" where
  "setattr h c a v =
     (case classes h c of
        None \<Rightarrow> h
      | Some k \<Rightarrow> h\<lparr>classes := (classes h)(c \<mapsto> k\<lparr>c_dict := (c_dict k)(a \<mapsto> v)\<rparr>)\<rparr>)"

definition new_dict :: "heap \<Rightarrow> dref \<times> heap" where
  \<comment> \<open>The dictionary display \<open>{}\<close>: a fresh, empty dictionary object.\<close>
  "new_dict h =
     (next_dref h, h\<lparr>dicts := (dicts h)(next_dref h := Map.empty), next_dref := Suc (next_dref h)\<rparr>)"

definition init_subclass :: "heap \<Rightarrow> cref \<Rightarrow> error + heap" where
  \<comment> \<open>\<open>BaseRegistry.__init_subclass__\<close>, run on the class being defined. Item assignment
      on a value that is no dictionary raises TypeError.\<close>
  "init_subclass h cls =
     (let h1 = (if \<not> hasattr h cls ''_registry'' then
                  (case new_dict h of (d, h') \<Rightarrow> setattr h' cls ''_registry'' (PDict d))
                else h)
      in case classes h1 cls of
           None \<Rightarrow> Inl (AttributeError (NoAttribute ''__module__''))
         | Some k \<Rightarrow>
             (let name = registration_name (c_module k)
              in case getattr h1 cls ''_registry'' of
                   None \<Rightarrow> Inl (AttributeError (NoAttribute ''_registry''))
                 | Some (PDict d) \<Rightarrow> Inr (h1\<lparr>dicts := (dicts h1)(d := (dicts h1 d)(name \<mapsto> cls))\<rparr>)
                 | Some _ \<Rightarrow> Inl TypeError))"

definition no_registration :: "heap \<Rightarrow> cref \<Rightarrow> error + cref \<times> heap" where
  \<comment> \<open>\<open>BaseRegistry.no_registration\<close>; \<open>del d[name]\<close> raises KeyError on an absent key.\<close>
  "no_registration h cls =
     (case classes h cls of
        None \<Rightarrow> Inl (AttributeError (NoAttribute ''__module__''))
      | Some k \<Rightarrow>
          (let name = registration_name (c_module k)
           in case getattr h cls ''_registry'' of
                None \<Rightarrow> Inl (AttributeError (NoAttribute ''_registry''))
              | Some (PDict d) \<Rightarrow>
                  if dicts h d name = None then Inl (KeyError name)
                  else Inr (cls, h\<lparr>dicts := (dicts h)(d := (dicts h d)(name := None))\<rparr>)
              | Some _ \<Rightarrow> Inl TypeError))"

definition registry :: "heap \<Rightarrow> cref \<Rightarrow> error + pyval" where
  \<comment> \<open>\<open>BaseRegistry.registry\<close>: the value of \<open>self._registry\<close>.\<close>
  "registry h self =
     (case getattr h self ''_registry'' of
        None \<Rightarrow> Inl (AttributeError (NoAttribute ''_registry''))
      | Some v \<Rightarrow> Inr v)"

text \<open>
  The classes that exist before any component is defined: \<open>object\<close>, \<open>type\<close>,
  \<open>abc.ABCMeta\<close>, \<open>abc.ABC\<close> and \<open>BaseRegistry\<close> itself, whose namespace binds
  \<open>_schema_attr\<close> and no \<open>_registry\<close>.
\<close>

definition c_object :: cref where "c_object = 0"
definition c_typ :: cref where "c_typ = 1"
definition ABCMeta :: cref where "ABCMeta = 2"
definition ABC :: cref where "ABC = 3"
definition BaseRegistry :: cref where "BaseRegistry = 4"

definition init_heap :: heap where
  "init_heap =
     \<lparr>classes =
        [c_object \<mapsto> \<lparr>c_name = ''object'', c_module = ''builtins'', c_type = c_typ,
                      c_mro_tail = [], c_dict = Map.empty\<rparr>,
         c_typ \<mapsto> \<lparr>c_name = ''type'', c_module = ''builtins'', c_type = c_typ,
                   c_mro_tail = [c_object], c_dict = Map.empty\<rparr>,
         ABCMeta \<mapsto> \<lparr>c_name = ''ABCMeta'', c_module = ''abc'', c_type = c_typ,
                     c_mro_tail = [c_typ, c_object], c_dict = Map.empty\<rparr>,
         ABC \<mapsto> \<lparr>c_name = ''ABC'', c_module = ''abc'', c_type = ABCMeta,
                 c_mro_tail = [c_object], c_dict = Map.empty\<rparr>,
         BaseRegistry \<mapsto> \<lparr>c_name = ''BaseRegistry'', c_module = ''ledfxcontroller.utils'',
                          c_type = ABCMeta, c_mro_tail = [ABC, c_object],
                          c_dict = [''_schema_attr'' \<mapsto> PStr ''CONFIG_SCHEMA'']\<rparr>],
      dicts = (\<lambda>_. Map.empty),
      next_cref = 5,
      next_dref = 0\<rparr>"

definition new_class ::
  "heap \<Rightarrow> string \<Rightarrow> string \<Rightarrow> cref \<Rightarrow> cref list \<Rightarrow> (string \<rightharpoonup> pyval) \<Rightarrow> cref \<times> heap" where
  \<comment> \<open>The interpreter creates the class object from its name, its module, its
      metaclass, its linearised ancestors and the namespace of its body.\<close>
  "new_class h name module meta mro_tail body =
     (next_cref h,
      h\<lparr>classes := (classes h)(next_cref h \<mapsto>
                         \<lparr>c_name = name, c_module = module, c_type = meta,
                          c_mro_tail = mro_tail, c_dict = body\<rparr>),
        next_cref := Suc (next_cref h)\<rparr>)"

definition define_class ::
  "heap \<Rightarrow> string \<Rightarrow> string \<Rightarrow> cref \<Rightarrow> cref list \<Rightarrow> (string \<rightharpoonup> pyval) \<Rightarrow> error + cref \<times> heap" where
  \<comment> \<open>The class statement: once the class object exists, the hook
      \<open>__init_subclass__\<close> that the class inherits from \<open>BaseRegistry\<close> runs on it, if
      \<open>BaseRegistry\<close> is among its ancestors. An exception raised by the hook aborts
      the statement.\<close>
  "define_class h name module meta mro_tail body =
     (case new_class h name module meta mro_tail body of
        (c, h1) \<Rightarrow>
          if BaseRegistry \<in> set mro_tail then
            (case init_subclass h1 c of Inl e \<Rightarrow> Inl e | Inr h2 \<Rightarrow> Inr (c, h2))
          else Inr (c, h1))"

type_synonym class_stmt = "string \<times> string \<times> cref \<times> cref list \<times> (string \<rightharpoonup> pyval)"

fun define_all :: "heap \<Rightarrow> class_stmt list \<Rightarrow> error + heap" where
  \<comment> \<open>\<open>RegistryLoader.import_registry\<close> as far as the class store sees it: importing
      the modules of a package runs their class statements in order, and the first
      exception aborts the import.\<close>
  "define_all h [] = Inr h"
| "define_all h ((name, module, meta, mro_tail, body) # stmts) =
     (case define_class h name module meta mro_tail body of
        Inl e \<Rightarrow> Inl e
      | Inr (c, h') \<Rightarrow> define_all h' stmts)"

definition registry_ok :: "heap \<Rightarrow> bool" where
  \<comment> \<open>Every binding of \<open>_registry\<close> in a class namespace is a dictionary, as it is when
      only \<open>__init_subclass__\<close> writes that attribute.\<close>
  "registry_ok h =
     (\<forall>c k v. classes h c = Some k \<longrightarrow> c_dict k ''_registry'' = Some v \<longrightarrow> (\<exists>d. v = PDict d))"

subsection \<open>The composed schema in the words of the specification\<close>

definition declared_fragment :: "heap \<Rightarrow> string \<Rightarrow> cref \<Rightarrow> (string \<rightharpoonup> field) option" where
  \<comment> \<open>The field set of a class that passes the test of \<open>hasattr_explicit\<close>: the
      fields of the schema bound to the schema attribute on the class, when that value
      compares unequal (Python's \<open>!=\<close>) to the one visible on its parent.\<close>
  "declared_fragment h attr c =
     (if hasattr_explicit h c attr then
        (case getattr h c attr of Some (PSchema s) \<Rightarrow> Some (s_schema s) | _ \<Rightarrow> None)
      else None)"

definition fragments :: "heap \<Rightarrow> string \<Rightarrow> cref list \<Rightarrow> (string \<rightharpoonup> field) list" where
  "fragments h attr cs = List.map_filter (declared_fragment h attr) cs"

fun most_derived :: "(string \<rightharpoonup> field) list \<Rightarrow> string \<Rightarrow> field option" where
  \<comment> \<open>The declaration of a field in a list of fragments ordered from the leaf to the
      root: that of the first fragment that names the field.\<close>
  "most_derived [] k = None"
| "most_derived (f # fs) k = (case f k of Some d \<Rightarrow> Some d | None \<Rightarrow> most_derived fs k)"

section \<open>Validation\<close>

fun has_type :: "ftype \<Rightarrow> cfgval \<Rightarrow> bool" where
  "has_type TInt (VInt _) = True"
| "has_type TStr (VStr _) = True"
| "has_type TBool (VBool _) = True"
| "has_type _ _ = False"

definition offending :: "vol_schema \<Rightarrow> config \<Rightarrow> string \<Rightarrow> bool" where
  "offending s cfg k =
     (case s_schema s k of
        Some f \<Rightarrow>
          (case cfg k of
             Some v \<Rightarrow> \<not> has_type (f_type f) v
           | None \<Rightarrow> f_required f \<and> f_default f = None)
      | None \<Rightarrow> cfg k \<noteq> None \<and> s_extra s = PREVENT_EXTRA)"

definition normalized :: "vol_schema \<Rightarrow> config \<Rightarrow> config" where
  "normalized s cfg =
     (\<lambda>k. case s_schema s k of
            Some f \<Rightarrow> (case cfg k of Some v \<Rightarrow> Some v | None \<Rightarrow> f_default f)
          | None \<Rightarrow> (if s_extra s = ALLOW_EXTRA then cfg k else None))"

definition vol_call :: "vol_schema \<Rightarrow> config \<Rightarrow> error + config" where
  \<comment> \<open>Modelled from the spec: calling a \<open>Schema\<close> on a configuration belongs to the
      voluptuous library. The validator either returns the normalized mapping, with the
      declared default of every absent field that has one, or fails with a validation
      error that lists every offending field: a value of the wrong type, a required
      field that is absent and has no default, an unknown field when extra fields are
      not allowed.\<close>
  "vol_call s cfg =
     (if \<forall>k \<in> dom (s_schema s) \<union> dom cfg. \<not> offending s cfg k then Inr (normalized s cfg)
      else Inl (Invalid {k \<in> dom (s_schema s) \<union> dom cfg. offending s cfg k}))"

section \<open>The loader\<close>

text \<open>
  The state of a \<open>RegistryLoader\<close>. The application context \<open>_ledfx\<close> is only stored,
  never read, and is left out. Instances are values of an arbitrary type \<open>'o\<close>.
\<close>

record 'o loader =
  l_package :: string
  l_cls :: cref
  l_objects :: "int \<rightharpoonup> 'o"
  l_object_id :: int

definition loader_init :: "cref \<Rightarrow> string \<Rightarrow> 'o loader" where
  \<comment> \<open>\<open>RegistryLoader.__init__\<close>; the import of the package's modules acts on the class
      store only, through the class statements of those modules.\<close>
  "loader_init cls package =
     \<lparr>l_package = package, l_cls = cls, l_objects = Map.empty, l_object_id = 1\<rparr>"

text \<open>
  The positional arguments a constructor receives: the normalized configuration, when
  there is one, and the caller's extra arguments.
\<close>

datatype 'a arg = Config config | Extra 'a

type_synonym validator = "vol_schema \<Rightarrow> config \<Rightarrow> error + config"
type_synonym ('a, 'o) constructor = "cref \<Rightarrow> 'a arg list \<Rightarrow> error + 'o"

definition is_registered :: "heap \<Rightarrow> cref \<Rightarrow> string \<Rightarrow> bool" where
  \<comment> \<open>The test \<open>name in cls.registry()\<close> when it evaluates to true.\<close>
  "is_registered h cls name =
     (case registry h cls of Inr (PDict d) \<Rightarrow> dicts h d name \<noteq> None | _ \<Rightarrow> False)"

definition resolve_id :: "'o loader \<Rightarrow> int option \<Rightarrow> int \<times> 'o loader" where
  \<comment> \<open>The statements \<open>if id is None: id = self._object_id; self._object_id =
      self._object_id + 1\<close> of \<open>create\<close>.\<close>
  "resolve_id L oid =
     (case oid of
        None \<Rightarrow> (l_object_id L, L\<lparr>l_object_id := l_object_id L + 1\<rparr>)
      | Some i \<Rightarrow> (i, L))"

definition create ::
  "validator \<Rightarrow> ('a, 'o) constructor \<Rightarrow> heap \<Rightarrow> 'o loader \<Rightarrow> string \<Rightarrow> config option \<Rightarrow>
     int option \<Rightarrow> 'a list \<Rightarrow> (error + 'o) \<times> 'o loader" where
  \<comment> \<open>\<open>RegistryLoader.create\<close>. The call of a schema and the call of a class are taken
      as parameters: the first belongs to the voluptuous library, the second is the
      constructor of the component. The result pairs what the call returns or raises with
      the loader's state afterwards, since an assignment made before a \<open>raise\<close> stays.
      The membership test \<open>name not in registry\<close> and the later \<open>registry.get(name)\<close>
      read the same dictionary and are one case distinction here. A registry that is
      no dictionary makes the membership test raise TypeError.\<close>
  "create call construct h L name config oid args =
     (case registry h (l_cls L) of
        Inl e \<Rightarrow> (Inl e, L)
      | Inr (PDict d) \<Rightarrow>
          (case dicts h d name of
             None \<Rightarrow> (Inl (AttributeError (NotInRegistry name)), L)
           | Some cls \<Rightarrow>
               (let (rid, L1) = resolve_id L oid
                in if l_objects L1 rid \<noteq> None then
                     (Inl (AttributeError (AlreadyCreated rid)), L1)
                   else
                     (case config of
                        Some cfg \<Rightarrow>
                          (case schema h cls True ALLOW_EXTRA of
                             Inl e \<Rightarrow> (Inl e, L1)
                           | Inr (PSchema s) \<Rightarrow>
                               (case call s cfg of
                                  Inl e \<Rightarrow> (Inl e, L1)
                                | Inr cfg' \<Rightarrow>
                                    (case construct cls (Config cfg' # map Extra args) of
                                       Inl e \<Rightarrow> (Inl e, L1)
                                     | Inr obj \<Rightarrow>
                                         (Inr obj, L1\<lparr>l_objects := (l_objects L1)(rid \<mapsto> obj)\<rparr>)))
                           | Inr _ \<Rightarrow> (Inl TypeError, L1))
                      | None \<Rightarrow>
                          (case construct cls (map Extra args) of
                             Inl e \<Rightarrow> (Inl e, L1)
                           | Inr obj \<Rightarrow>
                               (Inr obj, L1\<lparr>l_objects := (l_objects L1)(rid \<mapsto> obj)\<rparr>)))))
      | Inr _ \<Rightarrow> (Inl TypeError, L))"

definition destroy :: "'o loader \<Rightarrow> int \<Rightarrow> (error + unit) \<times> 'o loader" where
  "destroy L oid =
     (if l_objects L oid = None then (Inl (AttributeError (DoesNotExist oid)), L)
      else (Inr (), L\<lparr>l_objects := (l_objects L)(oid := None)\<rparr>))"

subsection \<open>Runs of a loader\<close>

datatype 'a call = Create string "config option" "int option" "'a list" | Destroy int

fun exec ::
  "validator \<Rightarrow> ('a, 'o) constructor \<Rightarrow> heap \<Rightarrow> 'o loader \<Rightarrow> 'a call \<Rightarrow> 'o loader" where
  "exec call construct h L (Create name config oid args) =
     snd (create call construct h L name config oid args)"
| "exec call construct h L (Destroy oid) = snd (destroy L oid)"

fun auto_ids ::
  "validator \<Rightarrow> ('a, 'o) constructor \<Rightarrow> 'o loader \<Rightarrow> (heap \<times> 'a call) list \<Rightarrow> int list" where
  \<comment> \<open>The identifiers a run of calls takes from the counter, in order. Each call sees
      the class store as it is at that moment. Only the assignment \<open>id =
      self._object_id\<close> is followed by a change of the counter.\<close>
  "auto_ids call construct L [] = []"
| "auto_ids call construct L ((h, c) # cs) =
     (let L' = exec call construct h L c
      in (if l_object_id L' = l_object_id L then [] else [l_object_id L])
           @ auto_ids call construct L' cs)"

section \<open>An example package\<close>

definition ex_a1 :: field where
  "ex_a1 = \<lparr>f_type = TInt, f_required = False, f_default = Some (VInt 1)\<rparr>"

definition ex_a2 :: field where
  "ex_a2 = \<lparr>f_type = TInt, f_required = False, f_default = Some (VInt 2)\<rparr>"

definition ex_b :: field where
  "ex_b = \<lparr>f_type = TStr, f_required = True, f_default = None\<rparr>"

definition ex_Effect :: class_stmt where
  "ex_Effect = (''Effect'', ''ledfxcontroller.effects'', ABCMeta, [BaseRegistry, ABC, c_object],
                [''CONFIG_SCHEMA'' \<mapsto> PSchema (Schema [''a'' \<mapsto> ex_a1] PREVENT_EXTRA)])"

definition ex_Derived :: class_stmt where
  "ex_Derived = (''Derived'', ''ledfxcontroller.effects.derived'', ABCMeta,
                 [5, BaseRegistry, ABC, c_object],
                 [''CONFIG_SCHEMA'' \<mapsto> PSchema (Schema [''b'' \<mapsto> ex_b] PREVENT_EXTRA)])"

definition ex_Derived2 :: class_stmt where
  "ex_Derived2 = (''Derived2'', ''ledfxcontroller.effects.derived2'', ABCMeta,
                  [5, BaseRegistry, ABC, c_object],
                  [''CONFIG_SCHEMA'' \<mapsto> PSchema (Schema [''a'' \<mapsto> ex_a2] PREVENT_EXTRA)])"

definition ex_Plain :: class_stmt where
  "ex_Plain = (''Plain'', ''ledfxcontroller.effects.plain'', ABCMeta,
               [5, BaseRegistry, ABC, c_object], Map.empty)"

definition ex_heap :: heap where
  \<comment> \<open>The class store after the four class statements, written out.\<close>
  "ex_heap =
     \<lparr>classes = (classes init_heap)
        (5 \<mapsto> \<lparr>c_name = ''Effect'', c_module = ''ledfxcontroller.effects'', c_type = ABCMeta,
               c_mro_tail = [BaseRegistry, ABC, c_object],
               c_dict = [''CONFIG_SCHEMA'' \<mapsto> PSchema (Schema [''a'' \<mapsto> ex_a1] PREVENT_EXTRA),
                         ''_registry'' \<mapsto> PDict 0]\<rparr>,
         6 \<mapsto> \<lparr>c_name = ''Derived'', c_module = ''ledfxcontroller.effects.derived'',
               c_type = ABCMeta, c_mro_tail = [5, BaseRegistry, ABC, c_object],
               c_dict = [''CONFIG_SCHEMA'' \<mapsto> PSchema (Schema [''b'' \<mapsto> ex_b] PREVENT_EXTRA)]\<rparr>,
         7 \<mapsto> \<lparr>c_name = ''Derived2'', c_module = ''ledfxcontroller.effects.derived2'',
               c_type = ABCMeta, c_mro_tail = [5, BaseRegistry, ABC, c_object],
               c_dict = [''CONFIG_SCHEMA'' \<mapsto> PSchema (Schema [''a'' \<mapsto> ex_a2] PREVENT_EXTRA)]\<rparr>,
         8 \<mapsto> \<lparr>c_name = ''Plain'', c_module = ''ledfxcontroller.effects.plain'',
               c_type = ABCMeta, c_mro_tail = [5, BaseRegistry, ABC, c_object],
               c_dict = Map.empty\<rparr>),
      dicts = (\<lambda>_. Map.empty)
        (0 := [''effects'' \<mapsto> 5, ''derived'' \<mapsto> 6, ''derived2'' \<mapsto> 7, ''plain'' \<mapsto> 8]),
      next_cref = 9,
      next_dref = 1\<rparr>"

definition ex_construct :: "(unit, cref \<times> unit arg list) constructor" where
  \<comment> \<open>A constructor that never raises; the instance records its class and the
      arguments it was given.\<close>
  "ex_construct cls args = Inr (cls, args)"

definition ex_loader :: "(cref \<times> unit arg list) loader" where
  "ex_loader = loader_init 5 ''ledfxcontroller.effects''"




definition ex_heap_excluded :: heap where
  \<comment> \<open>\<open>ex_heap\<close> once the entry of \<open>Plain\<close> has been deleted.\<close>
  "ex_heap_excluded =
     ex_heap\<lparr>dicts := (dicts ex_heap)(0 := (dicts ex_heap 0)(''plain'' := None))\<rparr>"

definition ex_loader_live :: "(cref \<times> unit arg list) loader" where
  \<comment> \<open>A loader that holds one instance, under the identifier 5.\<close>
  "ex_loader_live = ex_loader\<lparr>l_objects := [5 \<mapsto> (5, [])]\<rparr>"

definition ex_calls :: "(heap \<times> unit call) list" where
  "ex_calls =
     [(ex_heap, Create ''effects'' (Some Map.empty) None []),
      (ex_heap, Create ''effects'' (Some [''a'' \<mapsto> VStr ''wrong_type'']) None []),
      (ex_heap, Destroy 1),
      (ex_heap, Create ''effects'' None (Some 7) []),
      (ex_heap, Create ''does_not_exist'' None None []),
      (ex_heap, Create ''effects'' None None [])]"

section \<open>Facts about the example package\<close>

lemmas ref_defs = BaseRegistry_def ABC_def ABCMeta_def c_object_def c_typ_def

lemma registration_name_examples:
  "registration_name ''ledfxcontroller.effects'' = ''effects''"
  "registration_name ''ledfxcontroller.devices'' = ''devices''"
  "registration_name ''ledfxcontroller.effects.derived'' = ''derived''"
  "registration_name ''ledfxcontroller.effects.derived2'' = ''derived2''"
  "registration_name ''ledfxcontroller.effects.plain'' = ''plain''"
  "registration_name ''ledfxcontroller.effects.rainbow'' = ''rainbow''"
  by (simp_all add: registration_name_def)

lemma ex_heap_reachable:
  "define_all init_heap [ex_Effect, ex_Derived, ex_Derived2, ex_Plain] = Inr ex_heap"
  by (simp add: ex_Effect_def ex_Derived_def ex_Derived2_def ex_Plain_def define_class_def
        new_class_def init_subclass_def hasattr_def getattr_def getmro_def new_dict_def
        setattr_def registration_name_examples Let_def init_heap_def ref_defs ex_heap_def)

lemma ex_classes:
  "classes ex_heap 0 = Some \<lparr>c_name = ''object'', c_module = ''builtins'', c_type = 1,
                      c_mro_tail = [], c_dict = Map.empty\<rparr>"
  "classes ex_heap (Suc 0) = Some \<lparr>c_name = ''type'', c_module = ''builtins'', c_type = 1,
                   c_mro_tail = [0], c_dict = Map.empty\<rparr>"
  "classes ex_heap 2 = Some \<lparr>c_name = ''ABCMeta'', c_module = ''abc'', c_type = 1,
                     c_mro_tail = [1, 0], c_dict = Map.empty\<rparr>"
  "classes ex_heap 3 = Some \<lparr>c_name = ''ABC'', c_module = ''abc'', c_type = 2,
                 c_mro_tail = [0], c_dict = Map.empty\<rparr>"
  "classes ex_heap 4 = Some \<lparr>c_name = ''BaseRegistry'', c_module = ''ledfxcontroller.utils'',
                          c_type = 2, c_mro_tail = [3, 0],
                          c_dict = [''_schema_attr'' \<mapsto> PStr ''CONFIG_SCHEMA'']\<rparr>"
  "classes ex_heap 5 = Some \<lparr>c_name = ''Effect'', c_module = ''ledfxcontroller.effects'',
               c_type = 2, c_mro_tail = [4, 3, 0],
               c_dict = [''CONFIG_SCHEMA'' \<mapsto> PSchema (Schema [''a'' \<mapsto> ex_a1] PREVENT_EXTRA),
                         ''_registry'' \<mapsto> PDict 0]\<rparr>"
  "classes ex_heap 6 = Some \<lparr>c_name = ''Derived'', c_module = ''ledfxcontroller.effects.derived'',
               c_type = 2, c_mro_tail = [5, 4, 3, 0],
               c_dict = [''CONFIG_SCHEMA'' \<mapsto> PSchema (Schema [''b'' \<mapsto> ex_b] PREVENT_EXTRA)]\<rparr>"
  "classes ex_heap 7 = Some \<lparr>c_name = ''Derived2'', c_module = ''ledfxcontroller.effects.derived2'',
               c_type = 2, c_mro_tail = [5, 4, 3, 0],
               c_dict = [''CONFIG_SCHEMA'' \<mapsto> PSchema (Schema [''a'' \<mapsto> ex_a2] PREVENT_EXTRA)]\<rparr>"
  "classes ex_heap 8 = Some \<lparr>c_name = ''Plain'', c_module = ''ledfxcontroller.effects.plain'',
               c_type = 2, c_mro_tail = [5, 4, 3, 0], c_dict = Map.empty\<rparr>"
  by (simp_all add: ex_heap_def init_heap_def ref_defs)

lemma ex_dict0:
  "dicts ex_heap 0 = [''effects'' \<mapsto> 5, ''derived'' \<mapsto> 6, ''derived2'' \<mapsto> 7, ''plain'' \<mapsto> 8]"
  by (simp add: ex_heap_def)

lemma ex_field_types:
  "field_types (Schema [''a'' \<mapsto> ex_a2] PREVENT_EXTRA)
     = field_types (Schema [''a'' \<mapsto> ex_a1] PREVENT_EXTRA)"
  "field_types (Schema [''b'' \<mapsto> ex_b] PREVENT_EXTRA)
     \<noteq> field_types (Schema [''a'' \<mapsto> ex_a1] PREVENT_EXTRA)"
proof -
  show "field_types (Schema [''a'' \<mapsto> ex_a2] PREVENT_EXTRA)
     = field_types (Schema [''a'' \<mapsto> ex_a1] PREVENT_EXTRA)"
    by (simp add: field_types_def Schema_def ex_a1_def ex_a2_def fun_eq_iff)
  show "field_types (Schema [''b'' \<mapsto> ex_b] PREVENT_EXTRA)
     \<noteq> field_types (Schema [''a'' \<mapsto> ex_a1] PREVENT_EXTRA)"
  proof
    assume "field_types (Schema [''b'' \<mapsto> ex_b] PREVENT_EXTRA)
              = field_types (Schema [''a'' \<mapsto> ex_a1] PREVENT_EXTRA)"
    then have "field_types (Schema [''b'' \<mapsto> ex_b] PREVENT_EXTRA) ''b''
                 = field_types (Schema [''a'' \<mapsto> ex_a1] PREVENT_EXTRA) ''b''"
      by (rule arg_cong)
    then show False by (simp add: field_types_def Schema_def)
  qed
qed

lemma ex_getattr_schema:
  "getattr ex_heap 0 ''CONFIG_SCHEMA'' = None"
  "getattr ex_heap 2 ''CONFIG_SCHEMA'' = None"
  "getattr ex_heap 3 ''CONFIG_SCHEMA'' = None"
  "getattr ex_heap 4 ''CONFIG_SCHEMA'' = None"
  "getattr ex_heap 5 ''CONFIG_SCHEMA'' = Some (PSchema (Schema [''a'' \<mapsto> ex_a1] PREVENT_EXTRA))"
  "getattr ex_heap 7 ''CONFIG_SCHEMA'' = Some (PSchema (Schema [''a'' \<mapsto> ex_a2] PREVENT_EXTRA))"
  "getattr ex_heap 8 ''CONFIG_SCHEMA'' = Some (PSchema (Schema [''a'' \<mapsto> ex_a1] PREVENT_EXTRA))"
  "getattr ex_heap 6 ''CONFIG_SCHEMA'' = Some (PSchema (Schema [''b'' \<mapsto> ex_b] PREVENT_EXTRA))"
  by (simp_all add: getattr_def getmro_def ex_classes)

lemma ex_super_schema:
  "super_getattr ex_heap 5 ''CONFIG_SCHEMA'' = None"
  "super_getattr ex_heap 7 ''CONFIG_SCHEMA'' = Some (PSchema (Schema [''a'' \<mapsto> ex_a1] PREVENT_EXTRA))"
  "super_getattr ex_heap 8 ''CONFIG_SCHEMA'' = Some (PSchema (Schema [''a'' \<mapsto> ex_a1] PREVENT_EXTRA))"
  "super_getattr ex_heap 6 ''CONFIG_SCHEMA'' = Some (PSchema (Schema [''a'' \<mapsto> ex_a1] PREVENT_EXTRA))"
  by (simp_all add: super_getattr_def ex_classes)

lemma ex_explicit:
  "\<not> hasattr_explicit ex_heap 0 ''CONFIG_SCHEMA''"
  "\<not> hasattr_explicit ex_heap 3 ''CONFIG_SCHEMA''"
  "\<not> hasattr_explicit ex_heap 4 ''CONFIG_SCHEMA''"
  "hasattr_explicit ex_heap 5 ''CONFIG_SCHEMA''"
  "\<not> hasattr_explicit ex_heap 7 ''CONFIG_SCHEMA''"
  "\<not> hasattr_explicit ex_heap 8 ''CONFIG_SCHEMA''"
  "hasattr_explicit ex_heap 6 ''CONFIG_SCHEMA''"
  by (simp_all add: hasattr_explicit_def ex_getattr_schema ex_super_schema py_ne_def
        ex_field_types)

lemma ex_getmro:
  "getmro ex_heap 5 = [5, 4, 3, 0]" "getmro ex_heap 7 = [7, 5, 4, 3, 0]"
  "getmro ex_heap 8 = [8, 5, 4, 3, 0]" "getmro ex_heap 6 = [6, 5, 4, 3, 0]"
  by (simp_all add: getmro_def ex_classes)

lemma ex_attr:
  "getattr ex_heap 5 ''_schema_attr'' = Some (PStr ''CONFIG_SCHEMA'')"
  "getattr ex_heap 7 ''_schema_attr'' = Some (PStr ''CONFIG_SCHEMA'')"
  "getattr ex_heap 8 ''_schema_attr'' = Some (PStr ''CONFIG_SCHEMA'')"
  "getattr ex_heap 6 ''_schema_attr'' = Some (PStr ''CONFIG_SCHEMA'')"
  by (simp_all add: getattr_def ex_classes)

lemma ex_registry:
  "getattr ex_heap 5 ''_registry'' = Some (PDict 0)"
  "getattr ex_heap 8 ''_registry'' = Some (PDict 0)"
  "registry ex_heap 5 = Inr (PDict 0)"
  by (simp_all add: registry_def getattr_def ex_classes)

lemma ex_schema5:
  "schema ex_heap 5 True ALLOW_EXTRA = Inr (PSchema (Schema [''a'' \<mapsto> ex_a1] ALLOW_EXTRA))"
  by (simp add: schema_def ex_classes ex_attr ex_getmro getattr_explicit_def ex_explicit
        ex_getattr_schema)
     (simp add: Schema_def extend_schema_def)

section \<open>The loader: create and destroy\<close>

lemma ex_invalid:
  "vol_call (Schema [''a'' \<mapsto> ex_a1] ALLOW_EXTRA) [''a'' \<mapsto> VStr ''wrong_type'']
     = Inl (Invalid {''a''})"
  by (auto simp: vol_call_def Schema_def offending_def ex_a1_def)

lemma ex_valid_empty:
  "vol_call (Schema [''a'' \<mapsto> ex_a1] ALLOW_EXTRA) Map.empty = Inr [''a'' \<mapsto> VInt 1]"
  by (auto simp: vol_call_def Schema_def offending_def normalized_def ex_a1_def fun_eq_iff)

text \<open>
  With the validator of the specification the empty mapping is accepted whenever every
  required field has a default, and the normalized mapping then holds the default of
  every field that declares one.
\<close>

lemma vol_call_empty_defaults:
  assumes "\<forall>k f. s_schema s k = Some f \<longrightarrow> f_required f \<longrightarrow> f_default f \<noteq> None"
  shows "vol_call s Map.empty
           = Inr (\<lambda>k. case s_schema s k of Some f \<Rightarrow> f_default f | None \<Rightarrow> None)"
  using assms
  by (auto simp: vol_call_def offending_def normalized_def fun_eq_iff split: option.splits)

lemma ex_create_invalid:
  "create vol_call ex_construct ex_heap ex_loader ''effects''
       (Some [''a'' \<mapsto> VStr ''wrong_type'']) None []
     = (Inl (Invalid {''a''}), ex_loader\<lparr>l_object_id := 2\<rparr>)"
  by (simp add: create_def ex_registry ex_dict0 ex_schema5 ex_invalid resolve_id_def
        ex_loader_def loader_init_def)

lemma ex_create_after:
  "create vol_call ex_construct ex_heap (ex_loader\<lparr>l_object_id := 2\<rparr>) ''effects''
       (Some Map.empty) None []
     = (Inr (5, [Config [''a'' \<mapsto> VInt 1]]),
        ex_loader\<lparr>l_object_id := 3, l_objects := [2 \<mapsto> (5, [Config [''a'' \<mapsto> VInt 1]])]\<rparr>)"
  by (simp add: create_def ex_registry ex_dict0 ex_schema5 ex_valid_empty resolve_id_def
        ex_loader_def loader_init_def ex_construct_def)

lemma ex_create_fresh:
  "create vol_call ex_construct ex_heap ex_loader ''effects'' (Some Map.empty) None []
     = (Inr (5, [Config [''a'' \<mapsto> VInt 1]]),
        ex_loader\<lparr>l_object_id := 2, l_objects := [1 \<mapsto> (5, [Config [''a'' \<mapsto> VInt 1]])]\<rparr>)"
  by (simp add: create_def ex_registry ex_dict0 ex_schema5 ex_valid_empty resolve_id_def
        ex_loader_def loader_init_def ex_construct_def)

lemma ex_loader_live_fields:
  "l_cls ex_loader_live = 5" "l_objects ex_loader_live 5 = Some (5, [])"
  "l_objects ex_loader_live 7 = None" "l_object_id ex_loader_live = 1"
  "l_cls ex_loader = 5" "l_object_id ex_loader = 1"
  by (simp_all add: ex_loader_live_def ex_loader_def loader_init_def)

text \<open>
  Claim C1, as stated: a call of \<open>create\<close> that fails leaves the loader's state exactly
  as before, so that the next automatic identifier is the one it would have been without
  the failed call. The code takes the identifier from the counter before it checks for a
  conflict and before it validates: after a validation failure on a fresh loader the
  counter is 2, and the next instance is stored under 2, not under 1.
\<close>

theorem create_failure_counterexample:
  "fst (create vol_call ex_construct ex_heap ex_loader ''effects''
          (Some [''a'' \<mapsto> VStr ''wrong_type'']) None []) = Inl (Invalid {''a''})
   \<and> l_object_id ex_loader = 1
   \<and> l_object_id (snd (create vol_call ex_construct ex_heap ex_loader ''effects''
          (Some [''a'' \<mapsto> VStr ''wrong_type'']) None [])) = 2
   \<and> l_objects (snd (create vol_call ex_construct ex_heap
          (snd (create vol_call ex_construct ex_heap ex_loader ''effects''
                  (Some [''a'' \<mapsto> VStr ''wrong_type'']) None []))
          ''effects'' (Some Map.empty) None [])) 1 = None
   \<and> l_objects (snd (create vol_call ex_construct ex_heap ex_loader ''effects''
          (Some Map.empty) None [])) 1 = Some (5, [Config [''a'' \<mapsto> VInt 1]])"
  by (simp add: ex_create_invalid ex_create_after ex_create_fresh)
     (simp add: ex_loader_def loader_init_def)

text \<open>
  Claim C1, amended: a call of \<open>create\<close> that fails stores no instance and leaves the
  mapping from identifiers to instances, the class and the package as they were. When
  the name is unknown, or when the caller supplied the identifier, the whole state is
  unchanged. When the name is registered and the identifier was omitted, the counter has
  been advanced by one.
\<close>

theorem create_failure_state:
  assumes "create call construct h L name config oid args = (Inl e, L')"
  shows "l_objects L' = l_objects L \<and> l_cls L' = l_cls L \<and> l_package L' = l_package L
     \<and> (\<not> is_registered h (l_cls L) name \<longrightarrow> L' = L)
     \<and> (oid \<noteq> None \<longrightarrow> L' = L)
     \<and> (is_registered h (l_cls L) name \<and> oid = None \<longrightarrow> l_object_id L' = l_object_id L + 1)"
  using assms
  by (auto simp: create_def is_registered_def resolve_id_def Let_def
           split: sum.splits pyval.splits option.splits if_splits)

theorem create_failure_state_witness:
  "create vol_call ex_construct ex_heap ex_loader ''effects''
       (Some [''a'' \<mapsto> VStr ''wrong_type'']) None []
     = (Inl (Invalid {''a''}), ex_loader\<lparr>l_object_id := 2\<rparr>)
   \<and> l_objects (ex_loader\<lparr>l_object_id := 2\<rparr>) = l_objects ex_loader
   \<and> is_registered ex_heap (l_cls ex_loader) ''effects''
   \<and> l_object_id (ex_loader\<lparr>l_object_id := 2\<rparr>) = l_object_id ex_loader + 1"
  using create_failure_state[OF ex_create_invalid]
  by (simp add: ex_create_invalid is_registered_def ex_loader_live_fields ex_registry ex_dict0)

text \<open>
  Claim C8, as stated: whenever the identifier \<open>i\<close> holds a live instance,
  \<open>create(name, config, id=i)\<close> fails with the conflict error. The name is checked
  first: with a name that is not registered the call fails with the error of the
  unknown name.
\<close>

theorem create_conflict_counterexample:
  "l_objects ex_loader_live 5 = Some (5, [])
   \<and> fst (create vol_call ex_construct ex_heap ex_loader_live ''does_not_exist''
            (Some Map.empty) (Some 5) [])
       = Inl (AttributeError (NotInRegistry ''does_not_exist''))
   \<and> fst (create vol_call ex_construct ex_heap ex_loader_live ''does_not_exist''
            (Some Map.empty) (Some 5) [])
       \<noteq> Inl (AttributeError (AlreadyCreated 5))"
  by (simp add: create_def ex_loader_live_fields ex_registry ex_dict0)

text \<open>
  Claim C8, amended: when the identifier \<open>i\<close> holds a live instance,
  \<open>create(name, config, id=i)\<close> fails and returns the loader unchanged, so the
  instance stays under \<open>i\<close>; the error is the conflict error when the name is
  registered, and the error of the unknown name when the registry lacks the name.
\<close>

theorem create_conflict:
  assumes "l_objects L i = Some obj"
  shows "\<exists>e. create call construct h L name config (Some i) args = (Inl e, L)
     \<and> (is_registered h (l_cls L) name \<longrightarrow> e = AttributeError (AlreadyCreated i))
     \<and> (\<forall>d. registry h (l_cls L) = Inr (PDict d) \<and> dicts h d name = None
            \<longrightarrow> e = AttributeError (NotInRegistry name))"
  using assms
  by (auto simp: create_def is_registered_def resolve_id_def Let_def
           split: sum.splits pyval.splits option.splits if_splits)

theorem create_conflict_witness:
  "l_objects ex_loader_live 5 = Some (5, [])
   \<and> is_registered ex_heap (l_cls ex_loader_live) ''effects''
   \<and> create vol_call ex_construct ex_heap ex_loader_live ''effects'' (Some Map.empty) (Some 5) []
       = (Inl (AttributeError (AlreadyCreated 5)), ex_loader_live)"
  using create_conflict[OF ex_loader_live_fields(2), where call = vol_call
          and construct = ex_construct and h = ex_heap and name = "''effects''"
          and config = "Some Map.empty" and args = "[]"]
  by (auto simp: is_registered_def ex_loader_live_fields ex_registry ex_dict0)

text \<open>
  Claim C9: for a name that the registry lacks, \<open>create\<close> fails with the error of the
  unknown name and returns the loader as it was; \<open>destroy\<close> of an identifier without a
  live instance fails with the error of the unknown identifier and changes nothing;
  \<open>destroy\<close> of a live identifier removes that entry and no other, and leaves the
  counter alone.
\<close>

theorem create_unknown_name_and_destroy:
  "(registry h (l_cls L) = Inr (PDict d) \<and> dicts h d name = None \<longrightarrow>
      create call construct h L name config oid args
        = (Inl (AttributeError (NotInRegistry name)), L))
   \<and> (l_objects L i = None \<longrightarrow> destroy L i = (Inl (AttributeError (DoesNotExist i)), L))
   \<and> (l_objects L i \<noteq> None \<longrightarrow>
        (\<exists>L'. destroy L i = (Inr (), L') \<and> l_objects L' i = None
              \<and> (\<forall>j. j \<noteq> i \<longrightarrow> l_objects L' j = l_objects L j)
              \<and> l_object_id L' = l_object_id L \<and> l_cls L' = l_cls L
              \<and> l_package L' = l_package L))"
  by (simp add: create_def destroy_def)

theorem create_unknown_name_and_destroy_witness:
  "create vol_call ex_construct ex_heap ex_loader_live ''does_not_exist'' (Some Map.empty) None []
     = (Inl (AttributeError (NotInRegistry ''does_not_exist'')), ex_loader_live)
   \<and> destroy ex_loader_live 7 = (Inl (AttributeError (DoesNotExist 7)), ex_loader_live)
   \<and> (\<exists>L'. destroy ex_loader_live 5 = (Inr (), L') \<and> l_objects L' 5 = None
            \<and> l_object_id L' = 1)"
  using create_unknown_name_and_destroy[where h = ex_heap and L = ex_loader_live and d = 0
          and name = "''does_not_exist''" and i = 7 and call = vol_call
          and construct = ex_construct and config = "Some Map.empty" and oid = None
          and args = "[]"]
        create_unknown_name_and_destroy[where h = ex_heap and L = ex_loader_live and d = 0
          and name = "''does_not_exist''" and i = 5 and call = vol_call
          and construct = ex_construct and config = "Some Map.empty" and oid = None
          and args = "[]"]
  by (auto simp: ex_loader_live_fields ex_registry ex_dict0)

subsection \<open>Automatic identifiers\<close>

lemma create_counter:
  "l_object_id (snd (create call construct h L name config oid args)) =
     (if is_registered h (l_cls L) name \<and> oid = None then l_object_id L + 1 else l_object_id L)"
  by (auto simp: create_def is_registered_def resolve_id_def Let_def
           split: sum.splits pyval.splits option.splits if_splits)

lemma exec_counter:
  "l_object_id (exec call construct h L c) = l_object_id L
   \<or> l_object_id (exec call construct h L c) = l_object_id L + 1"
  by (cases c) (auto simp: create_counter destroy_def)

lemma auto_ids_consecutive:
  "auto_ids call construct L cs
     = map (\<lambda>j. l_object_id L + int j) [0..<length (auto_ids call construct L cs)]"
proof (induction cs arbitrary: L)
  case Nil
  show ?case by simp
next
  case (Cons hc cs)
  obtain h c where hc: "hc = (h, c)" by (cases hc)
  let ?L' = "exec call construct h L c"
  let ?rest = "auto_ids call construct ?L' cs"
  have IH: "?rest = map (\<lambda>j. l_object_id ?L' + int j) [0..<length ?rest]"
    by (rule Cons.IH)
  show ?case
  proof (cases "l_object_id ?L' = l_object_id L")
    case True
    with IH show ?thesis by (simp add: hc Let_def)
  next
    case False
    with exec_counter[of call construct h L c]
    have step: "l_object_id ?L' = l_object_id L + 1" by simp
    have "map (\<lambda>j. l_object_id L + int j) [0..<Suc (length ?rest)]
            = l_object_id L # map (\<lambda>j. l_object_id L + 1 + int j) [0..<length ?rest]"
      by (simp add: upt_conv_Cons map_Suc_upt[symmetric] del: upt_Suc)
    with IH step False show ?thesis by (simp add: hc Let_def)
  qed
qed

lemma consecutive_sorted: "sorted_wrt (<) (map (\<lambda>j. (a::int) + int j) [0..<n])"
  by (simp add: sorted_wrt_map sorted_wrt_iff_nth_less)

lemma consecutive_distinct: "distinct (map (\<lambda>j. (a::int) + int j) [0..<n])"
  by (simp add: distinct_map inj_on_def)

lemma create_auto_stores:
  "create call construct h L name config None args = (Inr obj, L')
     \<Longrightarrow> l_objects L' (l_object_id L) = Some obj \<and> l_object_id L' = l_object_id L + 1"
  by (auto simp: create_def resolve_id_def Let_def
           split: sum.splits pyval.splits option.splits if_splits)

text \<open>
  Claim C5: in a run of calls on a new loader, whatever the calls are (with or without an
  explicit identifier, failing or not) and with \<open>destroy\<close> among them, the identifiers
  taken from the counter are 1, 2, 3 and so on in this order: they start at 1, they
  increase strictly, and none occurs twice, also when the instance stored under one of
  them has been destroyed in between. A call without an identifier that succeeds stores
  its instance under the value the counter had and advances the counter by one.
\<close>

theorem auto_ids_start_at_one_and_increase:
  fixes L0 :: "'o loader" and call :: validator and construct :: "('a, 'o) constructor"
  assumes "L0 = loader_init cls package" and "ids = auto_ids call construct L0 calls"
  shows "l_object_id L0 = 1
     \<and> ids = map (\<lambda>j. 1 + int j) [0..<length ids]
     \<and> sorted_wrt (<) ids \<and> distinct ids
     \<and> (ids \<noteq> [] \<longrightarrow> hd ids = 1)
     \<and> (\<forall>h (L :: 'o loader) name config args obj L'.
           create call construct h L name config None args = (Inr obj, L')
             \<longrightarrow> l_objects L' (l_object_id L) = Some obj \<and> l_object_id L' = l_object_id L + 1)"
proof -
  have one: "l_object_id L0 = 1" by (simp add: assms loader_init_def)
  have eq: "ids = map (\<lambda>j. 1 + int j) [0..<length ids]"
    using auto_ids_consecutive[of call construct L0 calls] one assms(2) by simp
  have s: "sorted_wrt (<) ids" by (subst eq) (rule consecutive_sorted)
  have d: "distinct ids" by (subst eq) (rule consecutive_distinct)
  have hd1: "ids \<noteq> [] \<longrightarrow> hd ids = 1"
  proof
    assume "ids \<noteq> []"
    then have pos: "0 < length ids" by simp
    then have "hd ids = ids ! 0" by (simp add: hd_conv_nth)
    also have "\<dots> = map (\<lambda>j. 1 + int j) [0..<length ids] ! 0" using eq by simp
    also have "\<dots> = 1" using pos by simp
    finally show "hd ids = 1" .
  qed
  from one eq s d hd1 create_auto_stores[where call = call and construct = construct]
  show ?thesis by blast
qed

lemma ex_calls_ids: "auto_ids vol_call ex_construct ex_loader ex_calls = [1, 2, 3]"
  by (simp add: ex_calls_def create_def destroy_def ex_registry ex_dict0 ex_schema5
        ex_invalid ex_valid_empty resolve_id_def ex_loader_def loader_init_def
        ex_construct_def Let_def)

theorem auto_ids_start_at_one_and_increase_witness:
  "auto_ids vol_call ex_construct ex_loader ex_calls = [1, 2, 3]
   \<and> sorted_wrt (<) (auto_ids vol_call ex_construct ex_loader ex_calls)
   \<and> distinct (auto_ids vol_call ex_construct ex_loader ex_calls)
   \<and> hd (auto_ids vol_call ex_construct ex_loader ex_calls) = 1"
  using auto_ids_start_at_one_and_increase[OF ex_loader_def refl,
          where call = vol_call and construct = ex_construct and calls = ex_calls]
  by (simp add: ex_calls_ids)

subsection \<open>Configuration and constructor arguments\<close>

text \<open>
  Claim C6: once the name is found and the resolved identifier is free, \<open>create\<close> with
  \<open>config = None\<close> calls the constructor of the registered class with the extra
  arguments only, and neither the schema nor the validator takes part in the result;
  with any other configuration, the empty mapping included, the configuration is passed
  to the validator of the composed schema (\<open>schema()\<close>, that is \<open>extended=True\<close> and
  extra fields allowed), and the constructor receives the mapping the validator returns,
  followed by the extra arguments in their order. The instance is stored under the
  resolved identifier.
\<close>

theorem create_config_handling:
  assumes "registry h (l_cls L) = Inr (PDict d)" and "dicts h d name = Some cls"
    and "resolve_id L oid = (rid, L1)" and "l_objects L1 rid = None"
  shows "create call construct h L name None oid args
           = (case construct cls (map Extra args) of
                Inl e \<Rightarrow> (Inl e, L1)
              | Inr obj \<Rightarrow> (Inr obj, L1\<lparr>l_objects := (l_objects L1)(rid \<mapsto> obj)\<rparr>))
     \<and> create call construct h L name None oid args
           = create call' construct h L name None oid args
     \<and> (\<forall>cfg s. schema h cls True ALLOW_EXTRA = Inr (PSchema s) \<longrightarrow>
           create call construct h L name (Some cfg) oid args
             = (case call s cfg of
                  Inl e \<Rightarrow> (Inl e, L1)
                | Inr cfg' \<Rightarrow>
                    (case construct cls (Config cfg' # map Extra args) of
                       Inl e \<Rightarrow> (Inl e, L1)
                     | Inr obj \<Rightarrow> (Inr obj, L1\<lparr>l_objects := (l_objects L1)(rid \<mapsto> obj)\<rparr>))))"
  using assms by (simp add: create_def)

lemma ex_resolve: "resolve_id ex_loader None = (1, ex_loader\<lparr>l_object_id := 2\<rparr>)"
  by (simp add: resolve_id_def ex_loader_live_fields)

lemma ex_free: "l_objects (ex_loader\<lparr>l_object_id := 2\<rparr>) 1 = None"
  by (simp add: ex_loader_def loader_init_def)

lemma ex_registry_loader: "registry ex_heap (l_cls ex_loader) = Inr (PDict 0)"
  by (simp add: ex_loader_live_fields ex_registry)

lemma ex_effects: "dicts ex_heap 0 ''effects'' = Some 5"
  by (simp add: ex_dict0)

theorem create_config_handling_witness:
  "create vol_call ex_construct ex_heap ex_loader ''effects'' None None [(), ()]
     = (Inr (5, [Extra (), Extra ()]),
        ex_loader\<lparr>l_object_id := 2, l_objects := [1 \<mapsto> (5, [Extra (), Extra ()])]\<rparr>)
   \<and> create vol_call ex_construct ex_heap ex_loader ''effects'' (Some Map.empty) None [(), ()]
     = (Inr (5, [Config [''a'' \<mapsto> VInt 1], Extra (), Extra ()]),
        ex_loader\<lparr>l_object_id := 2,
                  l_objects := [1 \<mapsto> (5, [Config [''a'' \<mapsto> VInt 1], Extra (), Extra ()])]\<rparr>)"
  using create_config_handling[OF ex_registry_loader ex_effects ex_resolve ex_free,
          where call = vol_call and construct = ex_construct and args = "[(), ()]"]
  by (simp add: ex_schema5 ex_valid_empty ex_construct_def ex_loader_def loader_init_def)

section \<open>The registry: definition and exclusion of classes\<close>

lemma mro_lookup_registry_ok:
  "registry_ok h \<Longrightarrow> mro_lookup h cs ''_registry'' = Some v \<Longrightarrow> \<exists>d. v = PDict d"
  by (induction cs) (auto simp: registry_ok_def split: option.splits)

lemma getattr_registry_ok:
  "registry_ok h \<Longrightarrow> getattr h c ''_registry'' = Some v \<Longrightarrow> \<exists>d. v = PDict d"
  by (auto simp: getattr_def simp del: mro_lookup.simps split: option.splits
           dest: mro_lookup_registry_ok)

lemma registry_ok_new_class:
  assumes "registry_ok h" and "body ''_registry'' = None"
    and "new_class h name module meta mro_tail body = (c, h1)"
  shows "registry_ok h1"
  using assms by (auto simp: registry_ok_def new_class_def split: if_splits)

lemma mro_lookup_dicts_upd [simp]:
  "mro_lookup (h\<lparr>dicts := ds\<rparr>) cs a = mro_lookup h cs a"
  by (induction cs) (auto split: option.splits)

lemma getattr_dicts_upd [simp]: "getattr (h\<lparr>dicts := ds\<rparr>) c a = getattr h c a"
  by (simp add: getattr_def getmro_def split: option.splits)

lemma registry_ok_dicts_upd [simp]: "registry_ok (h\<lparr>dicts := ds\<rparr>) = registry_ok h"
  by (simp add: registry_ok_def)

lemma init_subclass_fresh:
  assumes "classes h c = Some k" and "\<not> hasattr h c ''_registry''"
  shows "\<exists>h'. init_subclass h c = Inr h'
     \<and> classes h' = (classes h)(c \<mapsto> k\<lparr>c_dict := (c_dict k)(''_registry'' \<mapsto> PDict (next_dref h))\<rparr>)
     \<and> dicts h' = (dicts h)(next_dref h := [registration_name (c_module k) \<mapsto> c])
     \<and> next_dref h' = Suc (next_dref h) \<and> next_cref h' = next_cref h
     \<and> getattr h' c ''_registry'' = Some (PDict (next_dref h))"
  using assms
  by (simp add: init_subclass_def new_dict_def setattr_def Let_def getattr_def)

lemma init_subclass_shared:
  assumes "classes h c = Some k" and "getattr h c ''_registry'' = Some (PDict d)"
  shows "init_subclass h c
     = Inr (h\<lparr>dicts := (dicts h)(d := (dicts h d)(registration_name (c_module k) \<mapsto> c))\<rparr>)"
  using assms by (simp add: init_subclass_def hasattr_def Let_def)

lemma define_class_registers:
  assumes ok: "registry_ok h" and sub: "BaseRegistry \<in> set mro_tail"
    and body: "body ''_registry'' = None"
    and new: "new_class h name module meta mro_tail body = (c, h1)"
  shows "\<exists>h' d. define_class h name module meta mro_tail body = Inr (c, h')
     \<and> registry h' c = Inr (PDict d)
     \<and> dicts h' d (registration_name module) = Some c
     \<and> (\<not> hasattr h1 c ''_registry'' \<longrightarrow>
          d = next_dref h \<and> next_dref h' = Suc (next_dref h)
          \<and> (\<exists>k. classes h' c = Some k \<and> c_dict k ''_registry'' = Some (PDict d))
          \<and> dicts h' d = [registration_name module \<mapsto> c])
     \<and> (hasattr h1 c ''_registry'' \<longrightarrow>
          getattr h1 c ''_registry'' = Some (PDict d) \<and> classes h' = classes h1
          \<and> next_dref h' = next_dref h
          \<and> dicts h' d = (dicts h d)(registration_name module \<mapsto> c))
     \<and> (\<forall>d'. d' \<noteq> d \<longrightarrow> dicts h' d' = dicts h d')
     \<and> next_cref h' = Suc (next_cref h)
     \<and> registry_ok h'"
proof -
  let ?k = "\<lparr>c_name = name, c_module = module, c_type = meta,
             c_mro_tail = mro_tail, c_dict = body\<rparr>"
  have c: "classes h1 c = Some ?k" and ds: "dicts h1 = dicts h"
    and nd: "next_dref h1 = next_dref h" and nc: "next_cref h1 = Suc (next_cref h)"
    using new by (auto simp: new_class_def)
  have ok1: "registry_ok h1" by (rule registry_ok_new_class[OF ok body new])
  show ?thesis
  proof (cases "hasattr h1 c ''_registry''")
    case False
    from init_subclass_fresh[OF c False] obtain h' where
      h': "init_subclass h1 c = Inr h'"
      "classes h' = (classes h1)(c \<mapsto> ?k\<lparr>c_dict := (c_dict ?k)(''_registry'' \<mapsto> PDict (next_dref h1))\<rparr>)"
      "dicts h' = (dicts h1)(next_dref h1 := [registration_name (c_module ?k) \<mapsto> c])"
      "next_dref h' = Suc (next_dref h1)" "next_cref h' = next_cref h1"
      "getattr h' c ''_registry'' = Some (PDict (next_dref h1))" by blast
    have "registry_ok h'"
      using ok1 h'(2) by (auto simp: registry_ok_def split: if_splits)
    with h' False c ds nd nc new sub show ?thesis
      by (auto simp: define_class_def registry_def)
  next
    case True
    then obtain v where v: "getattr h1 c ''_registry'' = Some v" by (auto simp: hasattr_def)
    with getattr_registry_ok[OF ok1] obtain d where d: "getattr h1 c ''_registry'' = Some (PDict d)"
      by blast
    from init_subclass_shared[OF c d] d True c ds nd nc new sub ok1 show ?thesis
      by (auto simp: define_class_def registry_def)
  qed
qed

lemma registry_ok_init_heap: "registry_ok init_heap"
  by (auto simp: registry_ok_def init_heap_def ref_defs split: if_splits)


lemma ex_base_in_mro:
  "BaseRegistry \<in> set [BaseRegistry, ABC, c_object]"
  "BaseRegistry \<in> set [5, BaseRegistry, ABC, c_object]"
  by simp_all

lemma ex_define_effect_dummy:
  "\<exists>h1 h2. define_class init_heap ''Effect'' ''ledfxcontroller.effects'' ABCMeta
              [BaseRegistry, ABC, c_object]
              [''CONFIG_SCHEMA'' \<mapsto> PSchema (Schema [''a'' \<mapsto> ex_a1] PREVENT_EXTRA)] = Inr (5, h1)
     \<and> define_class h1 ''DummyEffect'' ''ledfxcontroller.effects'' ABCMeta
              [5, BaseRegistry, ABC, c_object] Map.empty = Inr (6, h2)
     \<and> registry h1 5 = Inr (PDict 0) \<and> dicts h1 0 = [''effects'' \<mapsto> 5]
     \<and> registry h2 5 = Inr (PDict 0) \<and> registry h2 6 = Inr (PDict 0)
     \<and> dicts h2 0 = [''effects'' \<mapsto> 6]"
  by (simp add: define_class_def new_class_def init_subclass_def hasattr_def getattr_def
        getmro_def new_dict_def setattr_def registration_name_examples Let_def init_heap_def
        ref_defs registry_def)

text \<open>
  Claim C4: when two classes whose modules have the same last name segment are defined
  one after the other, neither definition raises; after the first the registry of the
  first class maps the name to it, after the second the registry of the second class
  maps the name to the second class, and to no other; where both use one registry, the
  first class is no longer the entry of that name. A registry is a dictionary, so a
  name has at most one entry at any time.
\<close>

theorem duplicate_name_last_write_wins:
  assumes ok: "registry_ok h"
    and sub1: "BaseRegistry \<in> set mro1" and sub2: "BaseRegistry \<in> set mro2"
    and body1: "body1 ''_registry'' = None" and body2: "body2 ''_registry'' = None"
    and same: "registration_name module1 = registration_name module2"
  shows "\<exists>T1 h1 d1 T2 h2 d2.
       define_class h name1 module1 meta1 mro1 body1 = Inr (T1, h1)
     \<and> define_class h1 name2 module2 meta2 mro2 body2 = Inr (T2, h2)
     \<and> T1 \<noteq> T2
     \<and> registry h1 T1 = Inr (PDict d1) \<and> dicts h1 d1 (registration_name module1) = Some T1
     \<and> registry h2 T2 = Inr (PDict d2) \<and> dicts h2 d2 (registration_name module1) = Some T2
     \<and> (d1 = d2 \<longrightarrow> dicts h2 d1 (registration_name module1) \<noteq> Some T1)
     \<and> (\<forall>T. dicts h2 d2 (registration_name module1) = Some T \<longrightarrow> T = T2)"
proof -
  obtain T1 g1 where n1: "new_class h name1 module1 meta1 mro1 body1 = (T1, g1)"
    by (cases "new_class h name1 module1 meta1 mro1 body1")
  from define_class_registers[OF ok sub1 body1 n1] obtain h1 d1 where
    s1: "define_class h name1 module1 meta1 mro1 body1 = Inr (T1, h1)"
      "registry h1 T1 = Inr (PDict d1)" "dicts h1 d1 (registration_name module1) = Some T1"
      "next_cref h1 = Suc (next_cref h)" "registry_ok h1" by blast
  obtain T2 g2 where n2: "new_class h1 name2 module2 meta2 mro2 body2 = (T2, g2)"
    by (cases "new_class h1 name2 module2 meta2 mro2 body2")
  from define_class_registers[OF s1(5) sub2 body2 n2] obtain h2 d2 where
    s2: "define_class h1 name2 module2 meta2 mro2 body2 = Inr (T2, h2)"
      "registry h2 T2 = Inr (PDict d2)" "dicts h2 d2 (registration_name module2) = Some T2"
    by blast
  have "T1 = next_cref h" "T2 = next_cref h1" using n1 n2 by (auto simp: new_class_def)
  with s1(4) have ne: "T1 \<noteq> T2" by simp
  from s1 s2 ne same show ?thesis by auto
qed

theorem duplicate_name_last_write_wins_witness:
  "\<exists>T1 h1 T2 h2 d.
       define_class init_heap ''Effect'' ''ledfxcontroller.effects'' ABCMeta
         [BaseRegistry, ABC, c_object]
         [''CONFIG_SCHEMA'' \<mapsto> PSchema (Schema [''a'' \<mapsto> ex_a1] PREVENT_EXTRA)] = Inr (T1, h1)
     \<and> define_class h1 ''DummyEffect'' ''ledfxcontroller.effects'' ABCMeta
         [5, BaseRegistry, ABC, c_object] Map.empty = Inr (T2, h2)
     \<and> T1 \<noteq> T2
     \<and> registry h1 T1 = Inr (PDict d) \<and> dicts h1 d ''effects'' = Some T1
     \<and> registry h2 T2 = Inr (PDict d) \<and> dicts h2 d ''effects'' = Some T2"
proof -
  have body1: "[''CONFIG_SCHEMA'' \<mapsto> PSchema (Schema [''a'' \<mapsto> ex_a1] PREVENT_EXTRA)] ''_registry''
                 = None" by simp
  have body2: "(Map.empty :: string \<rightharpoonup> pyval) ''_registry'' = None" by simp
  from duplicate_name_last_write_wins[where h = init_heap
         and ?name1.0 = "''Effect''" and ?module1.0 = "''ledfxcontroller.effects''"
         and ?meta1.0 = ABCMeta and ?mro1.0 = "[BaseRegistry, ABC, c_object]"
         and ?body1.0 = "[''CONFIG_SCHEMA'' \<mapsto> PSchema (Schema [''a'' \<mapsto> ex_a1] PREVENT_EXTRA)]"
         and ?name2.0 = "''DummyEffect''" and ?module2.0 = "''ledfxcontroller.effects''"
         and ?meta2.0 = ABCMeta and ?mro2.0 = "[5, BaseRegistry, ABC, c_object]"
         and ?body2.0 = Map.empty,
         OF registry_ok_init_heap ex_base_in_mro(1) ex_base_in_mro(2) body1 body2 refl]
  obtain T1 h1 d1 T2 h2 d2 where
    *: "define_class init_heap ''Effect'' ''ledfxcontroller.effects'' ABCMeta
          [BaseRegistry, ABC, c_object]
          [''CONFIG_SCHEMA'' \<mapsto> PSchema (Schema [''a'' \<mapsto> ex_a1] PREVENT_EXTRA)] = Inr (T1, h1)"
       "define_class h1 ''DummyEffect'' ''ledfxcontroller.effects'' ABCMeta
          [5, BaseRegistry, ABC, c_object] Map.empty = Inr (T2, h2)"
       "T1 \<noteq> T2"
       "registry h1 T1 = Inr (PDict d1)"
       "dicts h1 d1 (registration_name ''ledfxcontroller.effects'') = Some T1"
       "registry h2 T2 = Inr (PDict d2)"
       "dicts h2 d2 (registration_name ''ledfxcontroller.effects'') = Some T2"
    by blast
  from ex_define_effect_dummy obtain g1 g2 where
    g: "define_class init_heap ''Effect'' ''ledfxcontroller.effects'' ABCMeta
          [BaseRegistry, ABC, c_object]
          [''CONFIG_SCHEMA'' \<mapsto> PSchema (Schema [''a'' \<mapsto> ex_a1] PREVENT_EXTRA)] = Inr (5, g1)"
       "define_class g1 ''DummyEffect'' ''ledfxcontroller.effects'' ABCMeta
          [5, BaseRegistry, ABC, c_object] Map.empty = Inr (6, g2)"
       "registry g1 5 = Inr (PDict 0)" "registry g2 6 = Inr (PDict 0)"
    by blast
  from *(1) g(1) have e1: "T1 = 5" "h1 = g1" by simp_all
  with *(2) g(2) have e2: "T2 = 6" "h2 = g2" by simp_all
  from *(4) g(3) e1 have d1: "d1 = 0" by simp
  from *(6) g(4) e2 have d2: "d2 = 0" by simp
  from * d1 d2 show ?thesis
    by (auto simp: registration_name_examples)
qed









text \<open>
  Claim C7: \<open>no_registration\<close> computes the name of the given class from its module
  and deletes the entry of that name from the registry the class sees. When the
  registry has no entry of that name the deletion raises KeyError, a lookup error, and
  nothing changes; when it has one, exactly that name disappears from the mapping:
  every other name of that registry, every other dictionary and every class stay as
  they were, and the class is returned.
\<close>

theorem exclude_removes_entry:
  assumes "classes h cls = Some k" and "getattr h cls ''_registry'' = Some (PDict d)"
    and "name = registration_name (c_module k)"
  shows "(dicts h d name = None \<longrightarrow> no_registration h cls = Inl (KeyError name))
     \<and> (dicts h d name \<noteq> None \<longrightarrow>
          (\<exists>h'. no_registration h cls = Inr (cls, h')
             \<and> dicts h' d name = None
             \<and> (\<forall>n. n \<noteq> name \<longrightarrow> dicts h' d n = dicts h d n)
             \<and> (\<forall>d'. d' \<noteq> d \<longrightarrow> dicts h' d' = dicts h d')
             \<and> classes h' = classes h))"
  using assms by (auto simp: no_registration_def Let_def)

lemma ex_excluded:
  "classes ex_heap_excluded 8 = classes ex_heap 8"
  "getattr ex_heap_excluded 8 ''_registry'' = Some (PDict 0)"
  "dicts ex_heap_excluded 0 ''plain'' = None"
  by (simp_all add: ex_heap_excluded_def ex_registry)

theorem exclude_removes_entry_witness:
  "no_registration ex_heap 8 = Inr (8, ex_heap_excluded)
   \<and> dicts ex_heap 0 ''plain'' = Some 8
   \<and> dicts ex_heap_excluded 0 ''plain'' = None
   \<and> dicts ex_heap_excluded 0 ''effects'' = Some 5
   \<and> no_registration ex_heap_excluded 8 = Inl (KeyError ''plain'')"
  using exclude_removes_entry[OF ex_classes(9) ex_registry(2) refl]
        exclude_removes_entry[where h = ex_heap_excluded and cls = 8 and d = 0
          and name = "''plain''", OF ex_excluded(1)[unfolded ex_classes(9)] ex_excluded(2)]
  by (auto simp: registration_name_examples ex_dict0 ex_excluded no_registration_def Let_def
        ex_classes ex_registry ex_heap_excluded_def)

section \<open>Schema composition along the ancestors\<close>

lemma hasattr_explicit_getattr:
  "hasattr_explicit h c a \<Longrightarrow> \<exists>v. getattr h c a = Some v"
  by (auto simp: hasattr_explicit_def split: option.splits)

lemma getattr_explicit_PNone:
  "getattr_explicit h c a [PNone]
     = Inr (if hasattr_explicit h c a then (case getattr h c a of Some v \<Rightarrow> v | None \<Rightarrow> PNone)
            else PNone)"
  by (auto simp: getattr_explicit_def dest: hasattr_explicit_getattr)

lemma fragments_Nil: "fragments h a [] = []"
  by (simp add: fragments_def map_filter_simps)

lemma fragments_Cons:
  "fragments h a (c # cs)
     = (case declared_fragment h a c of None \<Rightarrow> [] | Some d \<Rightarrow> [d]) @ fragments h a cs"
  by (simp add: fragments_def map_filter_simps split: option.splits)

lemma fragments_append: "fragments h a (xs @ ys) = fragments h a xs @ fragments h a ys"
  by (induction xs) (simp_all add: fragments_Nil fragments_Cons)

lemma fragments_rev: "fragments h a (rev cs) = rev (fragments h a cs)"
  by (induction cs)
     (simp_all add: fragments_Nil fragments_Cons fragments_append split: option.splits)

lemma schema_loop_fragments:
  assumes "\<forall>x \<in> set cs. hasattr_explicit h x a \<longrightarrow>
             getattr h x a = Some PNone \<or> (\<exists>t. getattr h x a = Some (PSchema t))"
  shows "schema_loop h a s cs = Inr (s\<lparr>s_schema := foldl (++) (s_schema s) (fragments h a cs)\<rparr>)"
  using assms
proof (induction cs arbitrary: s)
  case Nil
  show ?case by (simp add: fragments_Nil)
next
  case (Cons c cs)
  then have IH: "\<And>s. schema_loop h a s cs
        = Inr (s\<lparr>s_schema := foldl (++) (s_schema s) (fragments h a cs)\<rparr>)"
    by simp
  show ?case
  proof (cases "hasattr_explicit h c a")
    case False
    then show ?thesis
      by (simp add: getattr_explicit_PNone IH fragments_Cons declared_fragment_def)
  next
    case True
    with Cons.prems
    consider "getattr h c a = Some PNone" | t where "getattr h c a = Some (PSchema t)"
      by auto
    then show ?thesis
    proof cases
      case 1
      with True show ?thesis
        by (simp add: getattr_explicit_PNone IH fragments_Cons declared_fragment_def)
    next
      case 2
      with True show ?thesis
        by (simp add: getattr_explicit_PNone IH fragments_Cons declared_fragment_def
              extend_schema_def)
    qed
  qed
qed

lemma most_derived_append:
  "most_derived (xs @ ys) k
     = (case most_derived xs k of Some d \<Rightarrow> Some d | None \<Rightarrow> most_derived ys k)"
  by (induction xs) (simp_all split: option.splits)

lemma foldl_map_add_most_derived:
  "foldl (++) m fs k = (case most_derived (rev fs) k of Some d \<Rightarrow> Some d | None \<Rightarrow> m k)"
proof (induction fs arbitrary: m)
  case Nil
  show ?case by simp
next
  case (Cons f fs)
  have "foldl (++) m (f # fs) k = foldl (++) (m ++ f) fs k" by simp
  also have "\<dots> = (case most_derived (rev fs) k of Some d \<Rightarrow> Some d | None \<Rightarrow> (m ++ f) k)"
    by (rule Cons.IH)
  also have "\<dots> = (case most_derived (rev (f # fs)) k of Some d \<Rightarrow> Some d | None \<Rightarrow> m k)"
    by (simp add: most_derived_append map_add_def split: option.splits)
  finally show ?case .
qed

text \<open>
  Claim C2 says that the composed schema merges the fragment of every class that
  declares one itself, from the root to the leaf, and that for a field declared at
  several levels the most derived declaration wins. The code,
  \<open>schema(extended=True)\<close>, starts from the empty schema with the given policy for
  extra fields, walks \<open>inspect.getmro\<close> reversed and merges the field set of exactly
  those classes for which \<open>hasattr_explicit\<close> holds; among the fragments it merges,
  the most derived one that names a field gives the field of the result, and a field
  that no later fragment names keeps its declaration. But \<open>hasattr_explicit\<close>, whose
  docstring reads "Returns if the given object has explicitly declared an attribute",
  tests the declaration with \<open>!=\<close> against the value visible on the parent, and two
  schemas with the same field names and validators are equal: a class that declares a
  field again with another default, or as required instead of optional, contributes no
  fragment, and the declaration of its ancestor stays in the composed schema.
\<close>

theorem composed_schema_root_to_leaf:
  assumes attr: "getattr h c ''_schema_attr'' = Some (PStr a)"
    and decl: "\<forall>x \<in> set (getmro h c). hasattr_explicit h x a \<longrightarrow>
                 getattr h x a = Some PNone \<or> (\<exists>t. getattr h x a = Some (PSchema t))"
  shows "\<exists>s. schema h c True extra = Inr (PSchema s)
     \<and> s_extra s = extra
     \<and> s_schema s = foldl (++) Map.empty (fragments h a (rev (getmro h c)))
     \<and> (\<forall>k. s_schema s k = most_derived (fragments h a (getmro h c)) k)
     \<and> (\<forall>x t u. getattr h x a = Some (PSchema t) \<and> super_getattr h x a = Some (PSchema u)
            \<and> field_types t = field_types u \<longrightarrow> declared_fragment h a x = None)"
proof -
  from attr obtain k where k: "classes h c = Some k"
    by (auto simp: getattr_def split: option.splits)
  from decl have decl': "\<forall>x \<in> set (rev (getmro h c)). hasattr_explicit h x a \<longrightarrow>
                 getattr h x a = Some PNone \<or> (\<exists>t. getattr h x a = Some (PSchema t))"
    by simp
  let ?s = "(Schema Map.empty extra)\<lparr>s_schema :=
              foldl (++) (s_schema (Schema Map.empty extra)) (fragments h a (rev (getmro h c)))\<rparr>"
  have loop: "schema_loop h a (Schema Map.empty extra) (rev (getmro h c)) = Inr ?s"
    by (rule schema_loop_fragments[OF decl'])
  have res: "schema h c True extra = Inr (PSchema ?s)"
    by (simp add: schema_def k attr loop)
  have fields: "s_schema ?s = foldl (++) Map.empty (fragments h a (rev (getmro h c)))"
    by (simp add: Schema_def)
  have md: "\<forall>k. s_schema ?s k = most_derived (fragments h a (getmro h c)) k"
    by (simp add: fields foldl_map_add_most_derived fragments_rev Schema_def
          split: option.splits)
  have ex: "s_extra ?s = extra" by (simp add: Schema_def)
  have same: "\<forall>x t u. getattr h x a = Some (PSchema t) \<and> super_getattr h x a = Some (PSchema u)
            \<and> field_types t = field_types u \<longrightarrow> declared_fragment h a x = None"
    by (simp add: declared_fragment_def hasattr_explicit_def py_ne_def)
  from res ex fields md same show ?thesis by blast
qed

lemma ex_decl:
  "\<forall>x \<in> set (getmro ex_heap 7). hasattr_explicit ex_heap x ''CONFIG_SCHEMA'' \<longrightarrow>
      getattr ex_heap x ''CONFIG_SCHEMA'' = Some PNone
      \<or> (\<exists>t. getattr ex_heap x ''CONFIG_SCHEMA'' = Some (PSchema t))"
  "\<forall>x \<in> set (getmro ex_heap 6). hasattr_explicit ex_heap x ''CONFIG_SCHEMA'' \<longrightarrow>
      getattr ex_heap x ''CONFIG_SCHEMA'' = Some PNone
      \<or> (\<exists>t. getattr ex_heap x ''CONFIG_SCHEMA'' = Some (PSchema t))"
  by (simp_all add: ex_getmro ex_explicit ex_getattr_schema)

lemma ex_fragments:
  "fragments ex_heap ''CONFIG_SCHEMA'' (getmro ex_heap 7) = [[''a'' \<mapsto> ex_a1]]"
  "fragments ex_heap ''CONFIG_SCHEMA'' (getmro ex_heap 6)
     = [[''b'' \<mapsto> ex_b], [''a'' \<mapsto> ex_a1]]"
  by (simp_all add: ex_getmro fragments_Cons fragments_Nil declared_fragment_def ex_explicit
        ex_getattr_schema Schema_def)

lemma ex_defaults: "f_default ex_a1 = Some (VInt 1)" "f_default ex_a2 = Some (VInt 2)"
  by (simp_all add: ex_a1_def ex_a2_def)

theorem composed_schema_root_to_leaf_witness:
  "(\<exists>s. schema ex_heap 6 True ALLOW_EXTRA = Inr (PSchema s)
        \<and> s_extra s = ALLOW_EXTRA \<and> s_schema s ''a'' = Some ex_a1 \<and> s_schema s ''b'' = Some ex_b)
   \<and> getattr ex_heap 7 ''CONFIG_SCHEMA'' = Some (PSchema (Schema [''a'' \<mapsto> ex_a2] PREVENT_EXTRA))
   \<and> f_default ex_a2 = Some (VInt 2)
   \<and> declared_fragment ex_heap ''CONFIG_SCHEMA'' 7 = None
   \<and> (\<exists>s. schema ex_heap 7 True ALLOW_EXTRA = Inr (PSchema s)
        \<and> s_schema s ''a'' = Some ex_a1 \<and> f_default ex_a1 = Some (VInt 1))"
  using composed_schema_root_to_leaf[OF ex_attr(4) ex_decl(2), of ALLOW_EXTRA]
        composed_schema_root_to_leaf[OF ex_attr(2) ex_decl(1), of ALLOW_EXTRA]
  by (auto simp: ex_fragments ex_getattr_schema ex_defaults declared_fragment_def ex_explicit)

text \<open>
  Claim C3 says that \<open>schema(extended=False)\<close> returns the schema the class itself
  declares. The method is a classmethod, so its first parameter is the class and
  \<open>type(self)\<close> is the metaclass: the explicit lookup is made on the metaclass. For
  every class whose metaclass has no value for the schema attribute, as is the case
  with \<open>ABCMeta\<close>, the result is the empty schema, whatever the class declares.
\<close>

theorem schema_not_extended_reads_metaclass:
  assumes "classes h c = Some k" and "getattr h c ''_schema_attr'' = Some (PStr a)"
    and "getattr h (c_type k) a = None"
  shows "schema h c False extra = Inr (PSchema (Schema Map.empty PREVENT_EXTRA))"
  using assms by (simp add: schema_def getattr_explicit_def hasattr_explicit_def)

theorem schema_not_extended_reads_metaclass_witness:
  "schema ex_heap 5 False ALLOW_EXTRA = Inr (PSchema (Schema Map.empty PREVENT_EXTRA))
   \<and> getattr_explicit ex_heap 5 ''CONFIG_SCHEMA'' [PSchema (Schema Map.empty PREVENT_EXTRA)]
        = Inr (PSchema (Schema [''a'' \<mapsto> ex_a1] PREVENT_EXTRA))"
  using schema_not_extended_reads_metaclass[OF ex_classes(6) ex_attr(1), of ALLOW_EXTRA]
  by (simp add: ex_getattr_schema getattr_explicit_def ex_explicit)

end
